theory Spec2Isabelle
  imports Complex_Main "HOL-Library.AList" "HOL-Library.Multiset"
begin

section \<open>Python values: exceptions and floats\<close>

text \<open>
  The exceptions that the modelled code can raise.  All of them are subclasses of Python's
  \<open>Exception\<close>, the class the handlers of the source name.  \<open>OtherError\<close> stands
  for errors of the external collaborators (network, image decoding, storage).
\<close>

datatype exn =
    ValueError
  | ZeroDivisionError
  | OverflowError
  | TypeError
  | AttributeError
  | KeyError
  | IndexError
  | AssertionError
  | OtherError string

text \<open>Sequencing of a computation that may raise: the first exception wins.\<close>

definition ebind :: "exn + 'a \<Rightarrow> ('a \<Rightarrow> exn + 'b) \<Rightarrow> exn + 'b" where
  "ebind m f = (case m of Inl e \<Rightarrow> Inl e | Inr x \<Rightarrow> f x)"

text \<open>
  A float is a finite value, an infinity or NaN.  The sign of zero is outside the model.
\<close>

datatype pyfloat = Fin real | PInf | NInf | NaN

fun is_finite :: "pyfloat \<Rightarrow> bool" where
  "is_finite (Fin _) = True"
| "is_finite _ = False"

text \<open>
  Arithmetic without rounding.  It is used for the vegetation index and for the detection
  transform, where what is stated does not depend on how results are rounded.
\<close>

fun fl_neg :: "pyfloat \<Rightarrow> pyfloat" where
  "fl_neg (Fin a) = Fin (- a)"
| "fl_neg PInf = NInf"
| "fl_neg NInf = PInf"
| "fl_neg NaN = NaN"

fun fl_add :: "pyfloat \<Rightarrow> pyfloat \<Rightarrow> pyfloat" where
  "fl_add (Fin a) (Fin b) = Fin (a + b)"
| "fl_add NaN _ = NaN"
| "fl_add _ NaN = NaN"
| "fl_add PInf NInf = NaN"
| "fl_add NInf PInf = NaN"
| "fl_add PInf _ = PInf"
| "fl_add NInf _ = NInf"
| "fl_add _ PInf = PInf"
| "fl_add _ NInf = NInf"

definition fl_sub :: "pyfloat \<Rightarrow> pyfloat \<Rightarrow> pyfloat" where
  "fl_sub x y = fl_add x (fl_neg y)"

text \<open>The sign of a float as seen by multiplication and division: 1, -1, or 0 for zero.\<close>

fun fl_sgn :: "pyfloat \<Rightarrow> real" where
  "fl_sgn (Fin a) = sgn a"
| "fl_sgn PInf = 1"
| "fl_sgn NInf = - 1"
| "fl_sgn NaN = 0"

definition inf_of_sign :: "real \<Rightarrow> pyfloat" where
  "inf_of_sign s = (if s = 0 then NaN else if 0 < s then PInf else NInf)"

fun fl_mul :: "pyfloat \<Rightarrow> pyfloat \<Rightarrow> pyfloat" where
  "fl_mul (Fin a) (Fin b) = Fin (a * b)"
| "fl_mul NaN _ = NaN"
| "fl_mul _ NaN = NaN"
| "fl_mul x y = inf_of_sign (fl_sgn x * fl_sgn y)"

text \<open>
  Division as numpy does it: never an exception; a finite nonzero value over zero is an
  infinity, zero over zero and infinity over infinity are NaN.
\<close>

fun np_div :: "pyfloat \<Rightarrow> pyfloat \<Rightarrow> pyfloat" where
  "np_div (Fin a) (Fin b) = (if b = 0 then inf_of_sign (sgn a) else Fin (a / b))"
| "np_div NaN _ = NaN"
| "np_div _ NaN = NaN"
| "np_div (Fin a) _ = Fin 0"
| "np_div x (Fin b) = (if b = 0 then x else inf_of_sign (fl_sgn x * sgn b))"
| "np_div _ _ = NaN"

text \<open>Division of Python floats: a zero divisor raises, whatever the dividend.\<close>

definition py_div :: "pyfloat \<Rightarrow> pyfloat \<Rightarrow> exn + pyfloat" where
  "py_div x y = (if y = Fin 0 then Inl ZeroDivisionError else Inr (np_div x y))"

text \<open>\<open>x ** 2\<close> on a float.\<close>

fun py_sq :: "pyfloat \<Rightarrow> pyfloat" where
  "py_sq (Fin a) = Fin (a\<^sup>2)"
| "py_sq NaN = NaN"
| "py_sq _ = PInf"



text \<open>\<open>int(x)\<close> truncates towards zero and refuses NaN and the infinities.\<close>

fun py_int :: "pyfloat \<Rightarrow> exn + int" where
  "py_int (Fin a) = Inr (if 0 \<le> a then \<lfloor>a\<rfloor> else \<lceil>a\<rceil>)"
| "py_int NaN = Inl ValueError"
| "py_int _ = Inl OverflowError"

text \<open>\<open>str(n)\<close> for a non-negative integer, as \<open>str.format\<close> prints it.\<close>

definition digit_char :: "nat \<Rightarrow> char" where
  "digit_char d = ''0123456789'' ! d"

fun str_nat :: "nat \<Rightarrow> string" where
  "str_nat n = (if n < 10 then [digit_char n] else str_nat (n div 10) @ [digit_char (n mod 10)])"

declare str_nat.simps [simp del]

section \<open>Vegetation index (geo\_indices.py)\<close>

type_synonym array2 = "pyfloat list list"

text \<open>
  \<open>ndvi = (nir - red) / (nir + red)\<close>, elementwise on two arrays of the same shape.
\<close>

definition ndvi_px :: "pyfloat \<Rightarrow> pyfloat \<Rightarrow> pyfloat" where
  "ndvi_px nir red = np_div (fl_sub nir red) (fl_add nir red)"

definition calculate_ndvi :: "array2 \<Rightarrow> array2 \<Rightarrow> array2" where
  "calculate_ndvi nir red = map2 (map2 ndvi_px) nir red"

section \<open>Double arithmetic of the platform\<close>

text \<open>
  Python floats and numpy's \<open>float64\<close> are IEEE doubles.  Addition, subtraction,
  multiplication, division and the square root are correctly rounded: on finite operands
  the result is the rounding \<open>rnd\<close> of the exact result, a double or, on overflow, an
  infinity.  Sine, cosine, arc sine and the power come from the C library, and numpy has
  a cosine of its own; their results are whatever the platform computes.  \<open>math.pi\<close> is a
  double.  All of this is a parameter of the tiler's model: a theorem about the tiler
  holds for every such arithmetic, and nothing is assumed about it.
\<close>

record arith =
  rnd :: "real \<Rightarrow> pyfloat"
  libm_sin :: "real \<Rightarrow> real"
  libm_cos :: "real \<Rightarrow> real"
  libm_asin :: "real \<Rightarrow> real"
  libm_pow2 :: "real \<Rightarrow> pyfloat"
  numpy_cos :: "real \<Rightarrow> real"
  math_pi :: real

text \<open>
  The operations on doubles: rounded on finite operands, by the rules for NaN and the
  infinities otherwise.
\<close>

fun dbl_add :: "arith \<Rightarrow> pyfloat \<Rightarrow> pyfloat \<Rightarrow> pyfloat" where
  "dbl_add ar (Fin a) (Fin b) = rnd ar (a + b)"
| "dbl_add ar x y = fl_add x y"


fun dbl_mul :: "arith \<Rightarrow> pyfloat \<Rightarrow> pyfloat \<Rightarrow> pyfloat" where
  "dbl_mul ar (Fin a) (Fin b) = rnd ar (a * b)"
| "dbl_mul ar x y = fl_mul x y"

text \<open>Division as numpy does it, and where the divisor is a nonzero constant.\<close>

fun dbl_div :: "arith \<Rightarrow> pyfloat \<Rightarrow> pyfloat \<Rightarrow> pyfloat" where
  "dbl_div ar (Fin a) (Fin b) = (if b = 0 then inf_of_sign (sgn a) else rnd ar (a / b))"
| "dbl_div ar x y = np_div x y"






text \<open>
  The index of a loop, multiplied with a double.  It is below a step count that was
  itself read off a double, so its conversion cannot overflow.
\<close>

definition dbl_of_nat :: "arith \<Rightarrow> nat \<Rightarrow> pyfloat" where
  "dbl_of_nat ar i = rnd ar (real i)"



fun math_cos :: "arith \<Rightarrow> pyfloat \<Rightarrow> exn + pyfloat" where
  "math_cos ar (Fin a) = Inr (Fin (libm_cos ar a))"
| "math_cos ar NaN = Inr NaN"
| "math_cos ar _ = Inl ValueError"




text \<open>numpy's cosine returns NaN (with a warning) instead of raising.\<close>

fun np_cos :: "arith \<Rightarrow> pyfloat \<Rightarrow> pyfloat" where
  "np_cos ar (Fin a) = Fin (numpy_cos ar a)"
| "np_cos ar _ = NaN"

text \<open>
  Three arithmetics for concrete runs: real arithmetic without rounding; real arithmetic
  with the range of doubles, where a result of magnitude \<open>2^1024\<close> or more is an
  infinity; and an arithmetic that rounds every result to a whole number, which makes
  rounding visible on small numbers.
\<close>

definition exact_arith :: arith where
  "exact_arith = \<lparr>rnd = Fin, libm_sin = sin, libm_cos = cos, libm_asin = arcsin,
     libm_pow2 = (\<lambda>x. Fin (x\<^sup>2)), numpy_cos = cos, math_pi = pi\<rparr>"

definition ranged :: "real \<Rightarrow> pyfloat" where
  "ranged x = (if \<bar>x\<bar> < 2 ^ 1024 then Fin x else inf_of_sign (sgn x))"

definition ranged_arith :: arith where
  "ranged_arith = \<lparr>rnd = ranged, libm_sin = sin, libm_cos = cos, libm_asin = arcsin,
     libm_pow2 = (\<lambda>x. ranged (x\<^sup>2)), numpy_cos = cos, math_pi = pi\<rparr>"

definition coarse_arith :: arith where
  "coarse_arith = \<lparr>rnd = (\<lambda>x. Fin (of_int (round x))), libm_sin = sin, libm_cos = cos,
     libm_asin = arcsin, libm_pow2 = (\<lambda>x. Fin (of_int (round (x\<^sup>2)))), numpy_cos = cos, math_pi = pi\<rparr>"

section \<open>Coordinates and tiling (coordinate\_utils.py)\<close>

text \<open>A bounding box is \<open>(lon1, lat1, lon2, lat2)\<close>.\<close>

type_synonym bbox = "pyfloat \<times> pyfloat \<times> pyfloat \<times> pyfloat"


text \<open>
  \<open>haversine_inv\<close>: the divisor \<open>np.cos(...)\<close> is a numpy scalar, so that division never
  raises; the other divisors are nonzero constants.
\<close>

definition haversine_inv :: "arith \<Rightarrow> pyfloat \<Rightarrow> pyfloat \<Rightarrow> pyfloat \<Rightarrow> pyfloat \<Rightarrow> pyfloat \<times> pyfloat" where
  "haversine_inv ar lon1 lat1 dx dy =
     (let m_to_km = Fin 1000;
          radius_of_earth_in_km = Fin 6371;
          dy' = dbl_div ar dy m_to_km;
          dx' = dbl_div ar dx m_to_km;
          lon2 = dbl_add ar lon1
                   (dbl_div ar (dbl_mul ar (dbl_div ar dx' radius_of_earth_in_km)
                                           (dbl_div ar (Fin 180) (Fin (math_pi ar))))
                               (np_cos ar (dbl_div ar (dbl_mul ar lat1 (Fin (math_pi ar))) (Fin 180))));
          lat2 = dbl_add ar lat1 (dbl_mul ar (dbl_div ar dy' radius_of_earth_in_km)
                                            (dbl_div ar (Fin 180) (Fin (math_pi ar))))
      in (lon2, lat2))"


text \<open>One row of the table of tiles (\<open>coord_df\<close>).\<close>

record coord_row =
  filename :: string
  lon_min :: pyfloat
  lat_min :: pyfloat
  lon_max :: pyfloat
  lat_max :: pyfloat

text \<open>The body of the inner loop of \<open>cut_up_bbox\<close>: the row for column \<open>i\<close>, row \<open>j\<close>.\<close>

definition tile_row :: "arith \<Rightarrow> pyfloat \<Rightarrow> pyfloat \<Rightarrow> pyfloat \<Rightarrow> pyfloat \<Rightarrow> nat \<Rightarrow> nat \<Rightarrow> coord_row" where
  "tile_row ar lon1 lat1 stepsize_lon stepsize_lat i j =
     (let lon = dbl_add ar lon1 (dbl_mul ar (dbl_of_nat ar i) stepsize_lon);
          lon_new = dbl_add ar lon stepsize_lon;
          lat = dbl_add ar lat1 (dbl_mul ar (dbl_of_nat ar j) stepsize_lat);
          lat_new = dbl_add ar lat stepsize_lat;
          fname = str_nat i @ ''_'' @ str_nat j
      in \<lparr>filename = fname, lon_min = lon, lat_min = lat, lon_max = lon_new, lat_max = lat_new\<rparr>)"





text \<open>
  \<open>points_to_coords\<close>: every pixel point \<open>(x, y)\<close> is scaled by the pixel size and moved
  from the south-west corner of the box.  It serves the detection transform and is
  taken without rounding.
\<close>

definition points_to_coords :: "(pyfloat \<times> pyfloat) list \<Rightarrow> pyfloat \<Rightarrow> bbox \<Rightarrow> (pyfloat \<times> pyfloat) list" where
  "points_to_coords points pixel_size bbox =
     (case bbox of (lon1, lat1, _, _) \<Rightarrow>
        map (\<lambda>(x, y). haversine_inv exact_arith lon1 lat1 (fl_mul x pixel_size) (fl_mul y pixel_size)) points)"


section \<open>Storage, settings and raster sources\<close>

text \<open>
  An image is a numpy array of two or three dimensions: rows of values, or rows of pixels
  with one value per channel.
\<close>

datatype ndarray = Arr2 "pyfloat list list" | Arr3 "pyfloat list list list"

text \<open>One row of a per-tile result table.\<close>

record feature =
  longitude :: pyfloat
  latitude :: pyfloat
  radius :: pyfloat
  diameter :: pyfloat
  circumference :: pyfloat
  area :: pyfloat

text \<open>A CSV table is its columns in order, each a header and the cells below it.\<close>

type_synonym csv_table = "(string \<times> string list) list"

datatype file_content =
    ImageFile ndarray
  | CsvFile csv_table
  | ResultFile "feature list"
  | Unparsable

text \<open>One \<open>getmap\<close> request to a raster source.\<close>

record wms_request =
  req_layers :: "string list"
  req_srs :: string
  req_bbox :: bbox
  req_size :: "int \<times> int"
  req_format :: string

text \<open>
  The world outside the program: the files on the hard drive by path, and the requests
  sent to the raster sources so far.  Storage accepts every write.
\<close>

record world =
  files :: "string \<rightharpoonup> file_content"
  wms_log :: "wms_request list"

text \<open>
  A raster source client: \<open>getmap\<close> followed by decoding the answer.  The outcome may
  depend on the requests made before (a service that fails once can answer later).
\<close>

type_synonym wms_client = "wms_request list \<Rightarrow> wms_request \<Rightarrow> exn + ndarray"

text \<open>A Python dictionary in insertion order; a missing key raises \<open>KeyError\<close>.\<close>

type_synonym 'v dict = "(string \<times> 'v) list"

definition dict_get :: "'v dict \<Rightarrow> string \<Rightarrow> exn + 'v" where
  "dict_get d k = (case map_of d k of None \<Rightarrow> Inl KeyError | Some v \<Rightarrow> Inr v)"

definition dict_set :: "'v dict \<Rightarrow> string \<Rightarrow> 'v \<Rightarrow> 'v dict" where
  "dict_set d k v = AList.update k v d"

type_synonym images = "ndarray dict"
type_synonym folders = "string dict"

record api_settings =
  api_use :: bool
  api_servicetype :: string
  api_url :: string
  api_version :: string
  api_layer :: string
  api_format :: string
  api_save_format :: string
  api_max_value :: pyfloat

text \<open>
  The settings of a session, by key path.  \<open>data_api\<close> is \<open>settings['data']['api']\<close>;
  \<open>data_other\<close> holds the per-layer entries found directly under \<open>settings['data']\<close>,
  the place where \<open>save_images\<close> looks.
\<close>

record settings =
  general_save_wms_data_to_hard_drive :: bool
  general_redo_if_already_processed :: bool
  general_save_results :: bool
  data_api :: "api_settings dict"
  data_other :: "api_settings dict"
  data_coord_crs :: string
  data_im_size_out :: int
  data_pixel_size :: pyfloat
  scale_space_minrad :: pyfloat
  scale_space_maxrad :: pyfloat
  scale_space_steprad :: pyfloat
  scale_space_threshold_rel_blob_peaks :: pyfloat
  scale_space_blob_overlap_threshold :: pyfloat
  scale_space_output_file_format :: string

definition path_join :: "string \<Rightarrow> string \<Rightarrow> string" where
  "path_join folder name = folder @ ''/'' @ name"

definition path_exists :: "world \<Rightarrow> string \<Rightarrow> bool" where
  "path_exists w p = (files w p \<noteq> None)"

definition write_file :: "string \<Rightarrow> file_content \<Rightarrow> world \<Rightarrow> world" where
  "write_file p c w = w\<lparr>files := (files w)(p \<mapsto> c)\<rparr>"

section \<open>Loading tile data (input\_utils.py)\<close>

text \<open>
  \<open>images_already_saved\<close>: the loop over \<open>settings['data']['api'].items()\<close>, returning
  \<open>False\<close> at the first enabled layer without a file.
\<close>

fun images_already_saved_loop :: "api_settings dict \<Rightarrow> folders \<Rightarrow> string \<Rightarrow> world \<Rightarrow> exn + bool" where
  "images_already_saved_loop [] fo fname w = Inr True"
| "images_already_saved_loop ((api_key, api_set) # rest) fo fname w =
     (if api_use api_set then
        ebind (dict_get fo api_key) (\<lambda>folder_path.
          let save_format = api_save_format api_set;
              img_path = path_join folder_path (fname @ ''.'' @ save_format);
              already_saved = path_exists w img_path
          in if \<not> already_saved then Inr False
             else images_already_saved_loop rest fo fname w)
      else images_already_saved_loop rest fo fname w)"

definition images_already_saved :: "folders \<Rightarrow> string \<Rightarrow> settings \<Rightarrow> world \<Rightarrow> exn + bool" where
  "images_already_saved fo fname se w = images_already_saved_loop (data_api se) fo fname w"

text \<open>
  \<open>get_images_from_hard_drive\<close> has four required parameters
  \<open>(folders, settings, filename, use_wms)\<close>.  Its first statement after the set-up iterates
  over \<open>folders.item()\<close>, an attribute a dictionary does not have.
\<close>

definition get_images_from_hard_drive :: "folders \<Rightarrow> settings \<Rightarrow> string \<Rightarrow> bool dict \<Rightarrow> world \<Rightarrow> exn + images" where
  "get_images_from_hard_drive fo se fname use_wms w = Inl AttributeError"

text \<open>
  The call in \<open>load_data\<close> passes three arguments, \<open>(folders, settings, filename)\<close>; with a
  required parameter missing Python raises \<open>TypeError\<close> before the body runs.
\<close>

definition get_images_from_hard_drive_3 :: "folders \<Rightarrow> settings \<Rightarrow> string \<Rightarrow> world \<Rightarrow> exn + images" where
  "get_images_from_hard_drive_3 fo se fname w = Inl TypeError"

text \<open>
  \<open>get_images_from_wms_service\<close>: the loop over \<open>wmses.items()\<close>.  Every request is
  logged in the world, whatever its outcome; the first exception ends the loop.
\<close>

fun get_images_loop :: "wms_client dict \<Rightarrow> settings \<Rightarrow> bbox \<Rightarrow> images \<Rightarrow> world \<Rightarrow> (exn + images) \<times> world" where
  "get_images_loop [] se bb imgs w = (Inr imgs, w)"
| "get_images_loop ((api_key, api_service) # rest) se bb imgs w =
     (case dict_get (data_api se) api_key of
        Inl e \<Rightarrow> (Inl e, w)
      | Inr api_set \<Rightarrow>
          if api_use api_set then
            if api_servicetype api_set = ''WebMapService'' then
              let rq = \<lparr>req_layers = [api_layer api_set], req_srs = data_coord_crs se,
                        req_bbox = bb,
                        req_size = (data_im_size_out se, data_im_size_out se),
                        req_format = api_format api_set\<rparr>;
                  w' = w\<lparr>wms_log := wms_log w @ [rq]\<rparr>
              in (case api_service (wms_log w) rq of
                    Inl e \<Rightarrow> (Inl e, w')
                  | Inr img \<Rightarrow> get_images_loop rest se bb (dict_set imgs api_key img) w')
            else (Inl ValueError, w)
          else get_images_loop rest se bb imgs w)"

definition get_images_from_wms_service :: "wms_client dict \<Rightarrow> settings \<Rightarrow> bbox \<Rightarrow> world \<Rightarrow> (exn + images) \<times> world" where
  "get_images_from_wms_service wmses se bb w = get_images_loop wmses se bb [] w"

text \<open>
  \<open>save_images\<close>: the loop over \<open>images.items()\<close>.  The save format is read from
  \<open>settings['data'][key]\<close>.
\<close>

fun save_images_loop :: "images \<Rightarrow> folders \<Rightarrow> string \<Rightarrow> settings \<Rightarrow> world \<Rightarrow> (exn + unit) \<times> world" where
  "save_images_loop [] fo fname se w = (Inr (), w)"
| "save_images_loop ((key, img) # rest) fo fname se w =
     (case dict_get fo key of
        Inl e \<Rightarrow> (Inl e, w)
      | Inr folder \<Rightarrow>
          (case dict_get (data_other se) key of
             Inl e \<Rightarrow> (Inl e, w)
           | Inr entry \<Rightarrow>
               let save_format = api_save_format entry;
                   filepath = path_join folder (fname @ ''.'' @ save_format)
               in save_images_loop rest fo fname se (write_file filepath (ImageFile img) w)))"

definition save_images :: "images \<Rightarrow> folders \<Rightarrow> string \<Rightarrow> settings \<Rightarrow> world \<Rightarrow> (exn + unit) \<times> world" where
  "save_images imgs fo fname se w = save_images_loop imgs fo fname se w"

text \<open>
  \<open>load_data\<close>.  The test of the \<open>if\<close> is outside every \<open>try\<close>, so an exception of
  \<open>images_already_saved\<close> leaves the function.  The \<open>elif\<close> belongs to that \<open>if\<close>: it is
  reached only when the test is false, with \<open>status\<close> still \<open>'loading'\<close>.
\<close>

definition load_data :: "folders \<Rightarrow> settings \<Rightarrow> string \<Rightarrow> bbox \<Rightarrow> wms_client dict \<Rightarrow> world \<Rightarrow> (exn + (images \<times> string)) \<times> world" where
  "load_data fo se fname bb wmses w =
     (let images0 = ([] :: images);
          status0 = ''loading'';
          save_wms_data_to_hard_drive = general_save_wms_data_to_hard_drive se
      in case (if save_wms_data_to_hard_drive then images_already_saved fo fname se w
               else Inr False) of
           Inl e \<Rightarrow> (Inl e, w)
         | Inr cached \<Rightarrow>
             if cached then
               (case get_images_from_hard_drive_3 fo se fname w of
                  Inr imgs \<Rightarrow> (Inr (imgs, ''loaded''), w)
                | Inl e \<Rightarrow> (Inr (images0, ''retry''), w))
             else if status0 = ''loading'' \<or> status0 = ''retry'' then
               (case get_images_from_wms_service wmses se bb w of
                  (Inl e, w1) \<Rightarrow> (Inr (images0, ''load_fail''), w1)
                | (Inr imgs, w1) \<Rightarrow>
                    if save_wms_data_to_hard_drive then
                      (case save_images imgs fo fname se w1 of
                         (Inl e, w2) \<Rightarrow> (Inr (imgs, ''load_fail''), w2)
                       | (Inr u, w2) \<Rightarrow> (Inr (imgs, ''loaded''), w2))
                    else (Inr (imgs, ''loaded''), w1))
             else (Inr (images0, status0), w))"

text \<open>
  \<open>get_todo_filenames\<close>.  \<open>None\<close> is returned when the file does not exist (the function
  ends without a \<open>return\<close>), when reading raises, and when the \<open>filename\<close> column is
  missing or empty.
\<close>

definition read_csv :: "world \<Rightarrow> string \<Rightarrow> exn + csv_table" where
  "read_csv w p = (case files w p of
                     Some (CsvFile t) \<Rightarrow> Inr t
                   | _ \<Rightarrow> Inl (OtherError ''read_csv''))"

text \<open>The position of the first row of the table whose file name is the given one.\<close>

fun first_index :: "string list \<Rightarrow> string \<Rightarrow> nat option" where
  "first_index [] x = None"
| "first_index (y # ys) x = (if y = x then Some 0 else map_option Suc (first_index ys x))"

fun todo_loop :: "string list \<Rightarrow> string list \<Rightarrow> nat list \<Rightarrow> nat list" where
  "todo_loop [] names indices = indices"
| "todo_loop (try_el # rest) names indices =
     (case first_index names try_el of
        Some ind \<Rightarrow> todo_loop rest names (indices @ [ind])
      | None \<Rightarrow> todo_loop rest names indices)"

definition get_todo_filenames :: "coord_row list \<Rightarrow> string \<Rightarrow> world \<Rightarrow> nat list option" where
  "get_todo_filenames coord_df todo_filepath w =
     (if path_exists w todo_filepath then
        (case read_csv w todo_filepath of
           Inl e \<Rightarrow> None
         | Inr try_df \<Rightarrow>
             (case map_of try_df ''filename'' of
                None \<Rightarrow> None
              | Some col \<Rightarrow>
                  if length col = 0 then None
                  else Some (todo_loop col (map filename coord_df) [])))
      else None)"

section \<open>Detection transform (preprocess.py, scale\_space\_tree\_detection.py)\<close>

text \<open>\<open>clamp_values\<close>: \<open>img / max_value\<close>, elementwise, by numpy.\<close>

fun clamp_values :: "ndarray \<Rightarrow> pyfloat \<Rightarrow> ndarray" where
  "clamp_values (Arr2 rows) max_value = Arr2 (map (map (\<lambda>v. np_div v max_value)) rows)"
| "clamp_values (Arr3 rows) max_value = Arr3 (map (map (map (\<lambda>v. np_div v max_value))) rows)"

text \<open>
  \<open>split_channels\<close>: the assertion wants three dimensions; the result lists
  \<open>img[:,:,i]\<close> for every channel \<open>i\<close>.  Arrays are rectangular, so the number of
  channels is read off the first pixel.
\<close>

definition n_channels :: "pyfloat list list list \<Rightarrow> nat" where
  "n_channels rows = (case concat rows of [] \<Rightarrow> 0 | px # _ \<Rightarrow> length px)"

fun split_channels :: "ndarray \<Rightarrow> exn + array2 list" where
  "split_channels (Arr2 rows) = Inl AssertionError"
| "split_channels (Arr3 rows) =
     Inr (map (\<lambda>i. map (map (\<lambda>px. px ! i)) rows) [0 ..< n_channels rows])"

text \<open>The keyword arguments handed to the blob detector.\<close>

record blob_kwargs =
  min_sigma :: pyfloat
  max_sigma :: pyfloat
  num_sigma :: int
  overlap :: pyfloat
  threshold_rel :: pyfloat

text \<open>
  The multi-scale detector of scikit-image is outside the program: it returns the raw
  detections \<open>(row, col, sigma)\<close> or raises.
\<close>

type_synonym blob = "pyfloat \<times> pyfloat \<times> pyfloat"
type_synonym blob_detector = "array2 \<Rightarrow> blob_kwargs \<Rightarrow> exn + blob list"

definition log_blob_detect :: "blob_detector \<Rightarrow> array2 \<Rightarrow> blob_kwargs \<Rightarrow> exn + blob list" where
  "log_blob_detect blob_log img kwargs =
     ebind (blob_log img kwargs) (\<lambda>blobs.
       Inr (map (\<lambda>(r, c, s). (r, c, fl_mul s (Fin (sqrt 2)))) blobs))"

text \<open>
  The lines of \<open>scale_space_tree_detect\<close> after detection: flip the first two columns,
  turn the vertical pixel coordinate over, replace pixels by coordinates, scale the
  radius to meters and append diameter, circumference and area.  The conversion to
  32-bit floats is a rounding and leaves no trace in this model.  With no detection
  \<open>points_to_coords\<close> returns \<open>np.array([])\<close>, of shape \<open>(0,)\<close>, which numpy does not
  broadcast into the two columns of shape \<open>(0, 2)\<close>: the assignment raises \<open>ValueError\<close>.
\<close>

definition blobs_to_features :: "blob list \<Rightarrow> nat \<Rightarrow> pyfloat \<Rightarrow> bbox \<Rightarrow> exn + feature list" where
  "blobs_to_features blobs height pixel_size bb =
     (let flipped = map (\<lambda>(r, c, s). (c, r, s)) blobs;
          turned = map (\<lambda>(x, y, s). (x, fl_sub (Fin (real height)) y, s)) flipped;
          coords = points_to_coords (map (\<lambda>(x, y, s). (x, y)) turned) pixel_size bb
      in if coords = [] then Inl ValueError
         else
           (let located = map2 (\<lambda>(lon, lat) (x, y, s). (lon, lat, s)) coords turned;
                in_meters = map (\<lambda>(lon, lat, s). (lon, lat, fl_mul s pixel_size)) located
            in Inr (map (\<lambda>(lon, lat, rad).
                      \<lparr>longitude = lon, latitude = lat, radius = rad,
                       diameter = fl_mul rad (Fin 2),
                       circumference = fl_mul (fl_mul rad (Fin 2)) (Fin pi),
                       area = fl_mul (py_sq rad) (Fin pi)\<rparr>) in_meters)))"

text \<open>
  \<open>scale_space_tree_detect\<close>.  \<open>None\<close> is returned without any work when results are not
  to be redone and a result file is there already.
\<close>

definition scale_space_tree_detect ::
  "blob_detector \<Rightarrow> images \<Rightarrow> folders \<Rightarrow> settings \<Rightarrow> string \<Rightarrow> bbox \<Rightarrow> world \<Rightarrow> (exn + feature list option) \<times> world" where
  "scale_space_tree_detect blob_log imgs fo se fname bb w =
     (let skip = (if \<not> general_redo_if_already_processed se then
                    ebind (dict_get fo ''results'') (\<lambda>res.
                      Inr (path_exists w (path_join res (fname @ ''.csv''))))
                  else Inr False)
      in case skip of
           Inl e \<Rightarrow> (Inl e, w)
         | Inr True \<Rightarrow> (Inr None, w)
         | Inr False \<Rightarrow>
            (let pixel_size = data_pixel_size se;
                 minrad = scale_space_minrad se;
                 maxrad = scale_space_maxrad se;
                 steprad = scale_space_steprad se;
                 computed =
                   ebind (dict_get (data_api se) ''nir'') (\<lambda>nir_set.
                   ebind (dict_get imgs ''nir'') (\<lambda>nir_img.
                   ebind (split_channels (clamp_values nir_img (api_max_value nir_set))) (\<lambda>chans.
                   case chans of
                     [nir, red, green] \<Rightarrow>
                       (let ndvi = calculate_ndvi nir red in
                        ebind (py_div minrad pixel_size) (\<lambda>minradpix.
                        ebind (py_div maxrad pixel_size) (\<lambda>maxradpix.
                        ebind (py_div (fl_sub maxrad minrad) pixel_size) (\<lambda>difradpix.
                        ebind (py_div steprad pixel_size) (\<lambda>stepradpix.
                        ebind (py_div difradpix stepradpix) (\<lambda>q.
                        ebind (py_int q) (\<lambda>nscales.
                        ebind (log_blob_detect blob_log ndvi
                                 \<lparr>min_sigma = minradpix, max_sigma = maxradpix,
                                  num_sigma = nscales,
                                  overlap = scale_space_blob_overlap_threshold se,
                                  threshold_rel = scale_space_threshold_rel_blob_peaks se\<rparr>) (\<lambda>blobs.
                        blobs_to_features blobs (length ndvi) pixel_size bb))))))))
                   | _ \<Rightarrow> Inl ValueError)))
             in case computed of
                  Inl e \<Rightarrow> (Inl e, w)
                | Inr result \<Rightarrow>
                    if general_save_results se then
                      (case dict_get fo ''results'' of
                         Inl e \<Rightarrow> (Inl e, w)
                       | Inr res \<Rightarrow>
                           (Inr (Some result),
                            write_file (path_join res (fname @ ''.'' @ scale_space_output_file_format se))
                              (ResultFile result) w))
                    else (Inr (Some result), w)))"

section \<open>The pipeline (analysis\_pipeline.py)\<close>

text \<open>An analysis method is handed in by reference; it may read and write storage.\<close>

type_synonym 'r analysis_method =
  "images \<Rightarrow> folders \<Rightarrow> settings \<Rightarrow> string \<Rightarrow> bbox \<Rightarrow> world \<Rightarrow> (exn + 'r) \<times> world"

text \<open>Connecting to a raster source (\<open>WebMapService(url, version=...)\<close>) may raise.\<close>

type_synonym connector = "string \<Rightarrow> string \<Rightarrow> exn + wms_client"

fun setup_data_getters :: "api_settings dict \<Rightarrow> connector \<Rightarrow> wms_client dict \<Rightarrow> exn + wms_client dict" where
  "setup_data_getters [] connect getters = Inr getters"
| "setup_data_getters ((api_key, api_set) # rest) connect getters =
     (if api_use api_set then
        if api_servicetype api_set = ''WebMapService'' then
          ebind (connect (api_url api_set) (api_version api_set)) (\<lambda>client.
            setup_data_getters rest connect (dict_set getters api_key client))
        else Inl ValueError
      else setup_data_getters rest connect getters)"

text \<open>
  The tiles to process: all of them, or the indices found through the todo file when
  there are any.
\<close>

definition select_total :: "folders \<Rightarrow> coord_row list \<Rightarrow> string option \<Rightarrow> world \<Rightarrow> exn + nat list" where
  "select_total fo coord_df todo w =
     (let total = [0 ..< length coord_df]
      in case todo of
           None \<Rightarrow> Inr total
         | Some t \<Rightarrow>
             ebind (dict_get fo ''base'') (\<lambda>base.
               let todo_filepath = path_join base (t @ ''.csv'');
                   total_try = get_todo_filenames coord_df todo_filepath w
               in case total_try of
                    None \<Rightarrow> Inr total
                  | Some tt \<Rightarrow> if length tt > 0 then Inr tt else Inr total))"

text \<open>What the main loop carries from one tile to the next.\<close>

record loop_state =
  succeeded :: "string list"
  failed :: "string list"
  done_count :: nat
  st_world :: world

definition mark_succeeded :: "string \<Rightarrow> world \<Rightarrow> loop_state \<Rightarrow> loop_state" where
  "mark_succeeded fname w st =
     st\<lparr>succeeded := succeeded st @ [fname], done_count := done_count st + 1, st_world := w\<rparr>"

definition mark_failed :: "string \<Rightarrow> world \<Rightarrow> loop_state \<Rightarrow> loop_state" where
  "mark_failed fname w st =
     st\<lparr>failed := failed st @ [fname], done_count := done_count st + 1, st_world := w\<rparr>"

text \<open>
  One iteration of the main loop.  Reading the row \<open>coord_df.iloc[c]\<close> is outside the
  \<open>try\<close>; fetching and analysing are inside, and the handler catches \<open>Exception\<close>.
\<close>

definition loop_body ::
  "settings \<Rightarrow> folders \<Rightarrow> coord_row list \<Rightarrow> 'r analysis_method option \<Rightarrow> wms_client dict \<Rightarrow> nat \<Rightarrow> loop_state \<Rightarrow> exn + loop_state" where
  "loop_body se fo coord_df analysis data_getters c st =
     (if c < length coord_df then
        (let coord = coord_df ! c;
             bb = (lon_min coord, lat_min coord, lon_max coord, lat_max coord);
             fname = filename coord
         in case load_data fo se fname bb data_getters (st_world st) of
              (Inl e, w1) \<Rightarrow> Inr (mark_failed fname w1 st)
            | (Inr (imgs, status), w1) \<Rightarrow>
                if status = ''loaded'' then
                  (case analysis of
                     None \<Rightarrow> Inr (mark_succeeded fname w1 st)
                   | Some method \<Rightarrow>
                       (case method imgs fo se fname bb w1 of
                          (Inl e, w2) \<Rightarrow> Inr (mark_failed fname w2 st)
                        | (Inr result, w2) \<Rightarrow> Inr (mark_succeeded fname w2 st)))
                else Inr (mark_failed fname w1 st))
      else Inl IndexError)"

fun main_loop ::
  "settings \<Rightarrow> folders \<Rightarrow> coord_row list \<Rightarrow> 'r analysis_method option \<Rightarrow> wms_client dict \<Rightarrow> nat list \<Rightarrow> loop_state \<Rightarrow> exn + loop_state" where
  "main_loop se fo coord_df analysis data_getters [] st = Inr st"
| "main_loop se fo coord_df analysis data_getters (c # cs) st =
     (case loop_body se fo coord_df analysis data_getters c st of
        Inl e \<Rightarrow> Inl e
      | Inr st' \<Rightarrow> main_loop se fo coord_df analysis data_getters cs st')"

text \<open>
  The logging after the loop: with at least one failure the list goes to \<open>failed.csv\<close>
  in the base folder, unless a file of that name is there already.
\<close>

definition save_failed :: "folders \<Rightarrow> string list \<Rightarrow> world \<Rightarrow> exn + world" where
  "save_failed fo failed_names w =
     (if length failed_names > 0 then
        ebind (dict_get fo ''base'') (\<lambda>base.
          let failed_df = [(''filename'', failed_names)];
              path = path_join base ''failed.csv''
          in if \<not> path_exists w path then Inr (write_file path (CsvFile failed_df) w)
             else Inr w)
      else Inr w)"

definition start_state :: "world \<Rightarrow> loop_state" where
  "start_state w = \<lparr>succeeded = [], failed = [], done_count = 0, st_world = w\<rparr>"

definition analysis_pipeline ::
  "settings \<Rightarrow> folders \<Rightarrow> coord_row list \<Rightarrow> 'r analysis_method option \<Rightarrow> string option \<Rightarrow> connector \<Rightarrow> world
     \<Rightarrow> exn + ((folders \<times> string list \<times> string list) \<times> world)" where
  "analysis_pipeline se fo coord_df analysis todo connect w =
     ebind (setup_data_getters (data_api se) connect []) (\<lambda>data_getters.
     ebind (select_total fo coord_df todo w) (\<lambda>total.
     ebind (main_loop se fo coord_df analysis data_getters total (start_state w)) (\<lambda>st.
     ebind (save_failed fo (failed st) (st_world st)) (\<lambda>w'.
       Inr ((fo, succeeded st, failed st), w')))))"

section \<open>A small session for concrete runs\<close>

text \<open>
  One layer, \<open>nir\<close>, served by a web map service and cached as PNG; a plan of two tiles;
  raster sources that answer, fail, or fail on the first request only; a detector that
  reports one blob; an analysis method that raises on the first tile.
\<close>

definition demo_api :: api_settings where
  "demo_api = \<lparr>api_use = True, api_servicetype = ''WebMapService'', api_url = ''https://example.org/wms'',
     api_version = ''1.3.0'', api_layer = ''nir'', api_format = ''image/png'',
     api_save_format = ''png'', api_max_value = Fin 255\<rparr>"

definition demo_settings :: settings where
  "demo_settings = \<lparr>general_save_wms_data_to_hard_drive = True,
     general_redo_if_already_processed = True,
     general_save_results = True,
     data_api = [(''nir'', demo_api)],
     data_other = [(''nir'', demo_api)],
     data_coord_crs = ''EPSG:4326'',
     data_im_size_out = 256,
     data_pixel_size = Fin (1 / 10),
     scale_space_minrad = Fin 1,
     scale_space_maxrad = Fin 5,
     scale_space_steprad = Fin 1,
     scale_space_threshold_rel_blob_peaks = Fin (1 / 10),
     scale_space_blob_overlap_threshold = Fin (1 / 2),
     scale_space_output_file_format = ''csv''\<rparr>"

definition demo_folders :: folders where
  "demo_folders = [(''base'', ''run''), (''results'', ''run/results''), (''nir'', ''run/nir'')]"

definition demo_image :: ndarray where
  "demo_image = Arr3 [[[Fin 255, Fin 51, Fin 0]]]"

definition demo_bbox :: bbox where
  "demo_bbox = (Fin 5, Fin 52, Fin 6, Fin 53)"

definition demo_coord_df :: "coord_row list" where
  "demo_coord_df =
     [\<lparr>filename = ''0_0'', lon_min = Fin 5, lat_min = Fin 52, lon_max = Fin 6, lat_max = Fin 53\<rparr>,
      \<lparr>filename = ''0_1'', lon_min = Fin 5, lat_min = Fin 53, lon_max = Fin 6, lat_max = Fin 54\<rparr>]"

definition empty_world :: world where
  "empty_world = \<lparr>files = Map.empty, wms_log = []\<rparr>"

definition cached_world :: world where
  "cached_world = \<lparr>files = [''run/nir/0_0.png'' \<mapsto> ImageFile demo_image], wms_log = []\<rparr>"

definition good_client :: wms_client where
  "good_client history rq = Inr demo_image"

definition bad_client :: wms_client where
  "bad_client history rq = Inl (OtherError ''timeout'')"

definition flaky_client :: wms_client where
  "flaky_client history rq = (if history = [] then Inl (OtherError ''timeout'') else Inr demo_image)"

definition demo_request :: "bbox \<Rightarrow> wms_request" where
  "demo_request bb = \<lparr>req_layers = [''nir''], req_srs = ''EPSG:4326'', req_bbox = bb,
      req_size = (256, 256), req_format = ''image/png''\<rparr>"

definition demo_blob_log :: blob_detector where
  "demo_blob_log img kw = Inr [(Fin 0, Fin 0, Fin 2)]"

definition picky_method :: "unit analysis_method" where
  "picky_method imgs fo se fname bb w = (if fname = ''0_0'' then (Inl ValueError, w) else (Inr (), w))"

definition demo_connect :: connector where
  "demo_connect url ver = Inr good_client"

definition flaky_connect :: connector where
  "flaky_connect url ver = Inr flaky_client"

definition todo_world :: world where
  "todo_world = \<lparr>files = [''run/todo.csv'' \<mapsto> CsvFile [(''filename'', [''0_1'', ''9_9''])]], wms_log = []\<rparr>"


section \<open>Properties of the vegetation index\<close>

lemma ndvi_px_bounds:
  assumes "0 \<le> a" "0 \<le> b" "a + b \<noteq> 0"
  shows "\<exists>v. ndvi_px (Fin a) (Fin b) = Fin v \<and> - 1 \<le> v \<and> v \<le> 1"
proof -
  from assms have pos: "0 < a + b" by linarith
  have "ndvi_px (Fin a) (Fin b) = Fin ((a - b) / (a + b))"
    using assms by (simp add: ndvi_px_def fl_sub_def)
  moreover have "- 1 \<le> (a - b) / (a + b)"
    using pos assms by (simp add: pos_le_divide_eq)
  moreover have "(a - b) / (a + b) \<le> 1"
    using pos assms by (simp add: pos_divide_le_eq)
  ultimately show ?thesis by blast
qed

lemma calculate_ndvi_nth:
  assumes "i < length nir" "i < length red" "j < length (nir ! i)" "j < length (red ! i)"
  shows "calculate_ndvi nir red ! i ! j = ndvi_px (nir ! i ! j) (red ! i ! j)"
  using assms by (simp add: calculate_ndvi_def)

text \<open>
  C5, as stated, fails: the inputs 2 and -1 are finite and their sum is not zero, yet the
  index is 3, outside \<open>[-1, 1]\<close>.
\<close>

theorem calculate_ndvi_counterexample:
  "calculate_ndvi [[Fin 2]] [[Fin (- 1)]] = [[Fin 3]] \<and> (2::real) + (- 1) \<noteq> 0 \<and> \<not> (3::real) \<le> 1"
  by (simp add: calculate_ndvi_def ndvi_px_def fl_sub_def)

text \<open>
  C5, amended: at every position where both reflectances are finite and not negative and
  their sum is not zero, the value of \<open>calculate_ndvi\<close> is finite and lies in the closed
  interval \<open>[-1, 1]\<close>.
\<close>

theorem calculate_ndvi_bounds:
  assumes "i < length nir" and "i < length red"
    and "j < length (nir ! i)" and "j < length (red ! i)"
    and "nir ! i ! j = Fin a" and "red ! i ! j = Fin b"
    and "0 \<le> a" and "0 \<le> b" and "a + b \<noteq> 0"
  shows "\<exists>v. calculate_ndvi nir red ! i ! j = Fin v \<and> - 1 \<le> v \<and> v \<le> 1"
  using assms ndvi_px_bounds[of a b] by (simp add: calculate_ndvi_nth)

theorem calculate_ndvi_bounds_witness:
  "\<exists>v. calculate_ndvi [[Fin 3]] [[Fin 1]] ! 0 ! 0 = Fin v \<and> - 1 \<le> v \<and> v \<le> 1"
  using calculate_ndvi_bounds[of 0 "[[Fin 3]]" "[[Fin 1]]" 0 3 1] by simp

section \<open>Sequencing\<close>

lemma ebind_Inr_iff: "ebind m f = Inr y \<longleftrightarrow> (\<exists>x. m = Inr x \<and> f x = Inr y)"
  by (cases m) (simp_all add: ebind_def)


lemma ebind_Inr [simp]: "ebind (Inr x) f = f x"
  by (simp add: ebind_def)

lemma ebind_Inl [simp]: "ebind (Inl e) f = Inl e"
  by (simp add: ebind_def)

section \<open>Properties of the tiler\<close>


















lemma exact_arith_sel [simp]:
  "rnd exact_arith = Fin" "libm_sin exact_arith = sin" "libm_cos exact_arith = cos"
  "libm_asin exact_arith = arcsin" "libm_pow2 exact_arith = (\<lambda>x. Fin (x\<^sup>2))"
  "numpy_cos exact_arith = cos" "math_pi exact_arith = pi"
  by (simp_all add: exact_arith_def)









text \<open>
  With the range of doubles: the whole globe, 256 pixels per tile and a pixel size of
  \<open>1e-304\<close>.  The height of the map in pixels is beyond the largest double.
\<close>

lemma ranged_arith_sel [simp]:
  "rnd ranged_arith = ranged" "libm_sin ranged_arith = sin" "libm_cos ranged_arith = cos"
  "libm_asin ranged_arith = arcsin" "libm_pow2 ranged_arith = (\<lambda>x. ranged (x\<^sup>2))"
  "numpy_cos ranged_arith = cos" "math_pi ranged_arith = pi"
  by (simp_all add: ranged_arith_def)











text \<open>
  The product with the index is not the running sum: in the arithmetic that rounds to
  whole numbers, two steps of 0.4 from 0 by the product end at 1, by repeated addition
  at 0.
\<close>

lemma coarse_arith_sel [simp]:
  "rnd coarse_arith = (\<lambda>x. Fin (of_int (round x)))"
  by (simp add: coarse_arith_def)

lemma product_is_not_running_sum:
  "lon_min (tile_row coarse_arith (Fin 0) (Fin 0) (Fin (2 / 5)) (Fin (2 / 5)) 2 0) = Fin 1
   \<and> dbl_add coarse_arith (dbl_add coarse_arith (Fin 0) (Fin (2 / 5))) (Fin (2 / 5)) = Fin 0"
  by (simp add: tile_row_def dbl_of_nat_def Let_def round_def)

section \<open>Properties of loading\<close>

lemmas demo_defs = load_data_def images_already_saved_def get_images_from_wms_service_def
      save_images_def demo_settings_def demo_api_def demo_folders_def empty_world_def
      good_client_def demo_request_def dict_get_def dict_set_def ebind_def path_join_def
      path_exists_def write_file_def Let_def

text \<open>
  C1 asks that a failed read of the cache is followed by a fetch from the raster sources.
  The code does not do that: when caching is on and every enabled layer has its file,
  the read raises, the status becomes \<open>'retry'\<close>, and \<open>load_data\<close> returns at once with no
  images; the world, and with it the log of requests, is unchanged.
\<close>

theorem load_data_cache_read_failure:
  assumes "general_save_wms_data_to_hard_drive se"
    and "images_already_saved fo fname se w = Inr True"
  shows "load_data fo se fname bb wmses w = (Inr ([], ''retry''), w)"
  using assms by (simp add: load_data_def get_images_from_hard_drive_3_def Let_def)

lemma cached_saved: "images_already_saved demo_folders ''0_0'' demo_settings cached_world = Inr True"
  by (simp add: images_already_saved_def demo_settings_def demo_api_def demo_folders_def cached_world_def
      dict_get_def ebind_def path_join_def path_exists_def)

theorem load_data_cache_read_failure_witness:
  "load_data demo_folders demo_settings ''0_0'' demo_bbox [(''nir'', good_client)] cached_world
     = (Inr ([], ''retry''), cached_world) \<and> wms_log cached_world = []"
  using load_data_cache_read_failure[of demo_settings demo_folders "''0_0''" cached_world demo_bbox
      "[(''nir'', good_client)]"]
    cached_saved
  by (simp add: demo_settings_def cached_world_def)

text \<open>
  C3: when the fetch from the raster sources is reached (caching is off, or some enabled
  layer has no file) and \<open>get_images_from_wms_service\<close> raises, \<open>load_data\<close> returns
  normally, with status \<open>'load_fail'\<close> and the empty dictionary.
\<close>

theorem load_data_fetch_failure:
  assumes "\<not> general_save_wms_data_to_hard_drive se \<or> images_already_saved fo fname se w = Inr False"
    and "get_images_from_wms_service wmses se bb w = (Inl e, w1)"
  shows "load_data fo se fname bb wmses w = (Inr ([], ''load_fail''), w1)"
  using assms by (auto simp add: load_data_def Let_def)

lemma not_saved: "images_already_saved demo_folders ''0_0'' demo_settings empty_world = Inr False"
  by (simp add: images_already_saved_def demo_settings_def demo_api_def demo_folders_def empty_world_def
      dict_get_def ebind_def path_join_def path_exists_def)

lemma bad_fetch:
  "get_images_from_wms_service [(''nir'', bad_client)] demo_settings demo_bbox empty_world
     = (Inl (OtherError ''timeout''), empty_world\<lparr>wms_log := [demo_request demo_bbox]\<rparr>)"
  by (simp add: get_images_from_wms_service_def demo_settings_def demo_api_def dict_get_def
      bad_client_def empty_world_def demo_request_def Let_def)

theorem load_data_fetch_failure_witness:
  "load_data demo_folders demo_settings ''0_0'' demo_bbox [(''nir'', bad_client)] empty_world
     = (Inr ([], ''load_fail''), empty_world\<lparr>wms_log := [demo_request demo_bbox]\<rparr>)"
  using load_data_fetch_failure[of demo_settings demo_folders "''0_0''" empty_world
      "[(''nir'', bad_client)]" demo_bbox "OtherError ''timeout''"
      "empty_world\<lparr>wms_log := [demo_request demo_bbox]\<rparr>"]
    not_saved bad_fetch
  by simp

section \<open>Properties of the detection transform\<close>

lemma log_blob_detect_Inr:
  "log_blob_detect blob_log img kw = Inr bs \<Longrightarrow>
     \<exists>raw. blob_log img kw = Inr raw \<and> bs = map (\<lambda>(r, c, s). (r, c, fl_mul s (Fin (sqrt 2)))) raw"
  by (auto simp: log_blob_detect_def ebind_Inr_iff)

lemma blobs_to_features_length:
  "blobs_to_features blobs h p bb = Inr feats \<Longrightarrow> length feats = length blobs"
  by (auto simp: blobs_to_features_def points_to_coords_def split_beta Let_def split: if_splits)

lemma blobs_to_features_nth:
  assumes "blobs_to_features blobs h p bb = Inr feats"
    and "k < length blobs" and "blobs ! k = (r, c, s)"
  shows "radius (feats ! k) = fl_mul s p"
    and "diameter (feats ! k) = fl_mul (fl_mul s p) (Fin 2)"
    and "circumference (feats ! k) = fl_mul (fl_mul (fl_mul s p) (Fin 2)) (Fin pi)"
    and "area (feats ! k) = fl_mul (py_sq (fl_mul s p)) (Fin pi)"
  using assms
  by (auto simp: blobs_to_features_def points_to_coords_def split_beta Let_def split: if_splits)

lemma scale_space_tree_detect_Some:
  assumes "scale_space_tree_detect blob_log imgs fo se fname bb w = (Inr (Some feats), w')"
  shows "\<exists>ndvi kw blobs. log_blob_detect blob_log ndvi kw = Inr blobs
           \<and> blobs_to_features blobs (length ndvi) (data_pixel_size se) bb = Inr feats"
  using assms
  unfolding scale_space_tree_detect_def Let_def
  by (auto simp: ebind_Inr_iff split: sum.splits bool.splits if_splits list.splits)

text \<open>
  C6: whenever \<open>scale_space_tree_detect\<close> returns features, they come one for one from the
  raw detections of the blob detector.  For a raw detection with finite \<open>sigma\<close> and a finite
  pixel size, \<open>log_blob_detect\<close> hands on \<open>sigma * sqrt 2\<close> as the radius in pixels, the
  feature's radius is that times the pixel size, and diameter, circumference and area are
  \<open>2 * radius\<close>, \<open>2 * pi * radius\<close> and \<open>pi * radius\<^sup>2\<close>.
\<close>

theorem scale_space_tree_detect_geometry:
  assumes "scale_space_tree_detect blob_log imgs fo se fname bb w = (Inr (Some feats), w')"
    and "data_pixel_size se = Fin p"
  shows "\<exists>img kw raw scaled.
           blob_log img kw = Inr raw
         \<and> log_blob_detect blob_log img kw = Inr scaled
         \<and> length scaled = length raw
         \<and> length feats = length raw
         \<and> (\<forall>k < length raw. \<forall>row col s. raw ! k = (row, col, Fin s) \<longrightarrow>
               scaled ! k = (row, col, Fin (s * sqrt 2))
             \<and> radius (feats ! k) = Fin (s * sqrt 2 * p)
             \<and> diameter (feats ! k) = Fin (2 * (s * sqrt 2 * p))
             \<and> circumference (feats ! k) = Fin (2 * pi * (s * sqrt 2 * p))
             \<and> area (feats ! k) = Fin (pi * (s * sqrt 2 * p)\<^sup>2))"
proof -
  from scale_space_tree_detect_Some[OF assms(1)] obtain ndvi kw scaled where
    d: "log_blob_detect blob_log ndvi kw = Inr scaled"
    and f: "blobs_to_features scaled (length ndvi) (data_pixel_size se) bb = Inr feats"
    by blast
  from log_blob_detect_Inr[OF d] obtain raw where
    r: "blob_log ndvi kw = Inr raw"
    and s: "scaled = map (\<lambda>(r, c, s). (r, c, fl_mul s (Fin (sqrt 2)))) raw"
    by blast
  have len: "length scaled = length raw" using s by simp
  have "\<forall>k < length raw. \<forall>row col s. raw ! k = (row, col, Fin s) \<longrightarrow>
               scaled ! k = (row, col, Fin (s * sqrt 2))
             \<and> radius (feats ! k) = Fin (s * sqrt 2 * p)
             \<and> diameter (feats ! k) = Fin (2 * (s * sqrt 2 * p))
             \<and> circumference (feats ! k) = Fin (2 * pi * (s * sqrt 2 * p))
             \<and> area (feats ! k) = Fin (pi * (s * sqrt 2 * p)\<^sup>2)"
  proof (intro allI impI)
    fix k row col sg
    assume k: "k < length raw" and rk: "raw ! k = (row, col, Fin sg)"
    have sk: "scaled ! k = (row, col, Fin (sg * sqrt 2))"
      using k rk s by simp
    have k': "k < length scaled" using k len by simp
    show "scaled ! k = (row, col, Fin (sg * sqrt 2))
             \<and> radius (feats ! k) = Fin (sg * sqrt 2 * p)
             \<and> diameter (feats ! k) = Fin (2 * (sg * sqrt 2 * p))
             \<and> circumference (feats ! k) = Fin (2 * pi * (sg * sqrt 2 * p))
             \<and> area (feats ! k) = Fin (pi * (sg * sqrt 2 * p)\<^sup>2)"
      using sk blobs_to_features_nth[OF f k' sk]
      by (simp add: assms(2) mult.commute)
  qed
  then show ?thesis
    using r d len blobs_to_features_length[OF f]
    by auto
qed

lemma demo_detect:
  "\<exists>feats w'. scale_space_tree_detect demo_blob_log [(''nir'', demo_image)] demo_folders demo_settings ''0_0''
      demo_bbox empty_world = (Inr (Some feats), w')"
  by (simp add: scale_space_tree_detect_def demo_settings_def demo_api_def demo_folders_def
      demo_image_def dict_get_def n_channels_def py_div_def fl_sub_def log_blob_detect_def
      demo_blob_log_def calculate_ndvi_def blobs_to_features_def points_to_coords_def
      demo_bbox_def Let_def)

theorem scale_space_tree_detect_geometry_witness:
  "\<exists>feats w'.
     scale_space_tree_detect demo_blob_log [(''nir'', demo_image)] demo_folders demo_settings ''0_0''
       demo_bbox empty_world = (Inr (Some feats), w')
   \<and> length feats = 1
   \<and> radius (feats ! 0) = Fin (2 * sqrt 2 * (1 / 10))
   \<and> diameter (feats ! 0) = Fin (2 * (2 * sqrt 2 * (1 / 10)))
   \<and> circumference (feats ! 0) = Fin (2 * pi * (2 * sqrt 2 * (1 / 10)))
   \<and> area (feats ! 0) = Fin (pi * (2 * sqrt 2 * (1 / 10))\<^sup>2)"
proof -
  from demo_detect obtain feats w' where
    run: "scale_space_tree_detect demo_blob_log [(''nir'', demo_image)] demo_folders demo_settings ''0_0''
       demo_bbox empty_world = (Inr (Some feats), w')"
    by blast
  have px: "data_pixel_size demo_settings = Fin (1 / 10)" by (simp add: demo_settings_def)
  from scale_space_tree_detect_geometry[OF run px] obtain img kw raw scaled where
    raw: "demo_blob_log img kw = Inr raw"
    and len: "length feats = length raw"
    and each: "\<forall>k < length raw. \<forall>row col s. raw ! k = (row, col, Fin s) \<longrightarrow>
               scaled ! k = (row, col, Fin (s * sqrt 2))
             \<and> radius (feats ! k) = Fin (s * sqrt 2 * (1 / 10))
             \<and> diameter (feats ! k) = Fin (2 * (s * sqrt 2 * (1 / 10)))
             \<and> circumference (feats ! k) = Fin (2 * pi * (s * sqrt 2 * (1 / 10)))
             \<and> area (feats ! k) = Fin (pi * (s * sqrt 2 * (1 / 10))\<^sup>2)"
    by blast
  from raw have r: "raw = [(Fin 0, Fin 0, Fin 2)]" by (simp add: demo_blob_log_def)
  from each[rule_format, of 0 "Fin 0" "Fin 0" 2] r len run show ?thesis by simp
qed

section \<open>Properties of the main loop\<close>

lemma loop_body_cases:
  assumes "c < length coord_df"
  shows "\<exists>w'. loop_body se fo coord_df analysis getters c st = Inr (mark_succeeded (filename (coord_df ! c)) w' st)
            \<or> loop_body se fo coord_df analysis getters c st = Inr (mark_failed (filename (coord_df ! c)) w' st)"
  using assms
  by (auto simp: loop_body_def Let_def split: prod.splits sum.splits option.splits)

lemma main_loop_append:
  "main_loop se fo coord_df analysis getters (xs @ ys) st =
     (case main_loop se fo coord_df analysis getters xs st of
        Inl e \<Rightarrow> Inl e
      | Inr st' \<Rightarrow> main_loop se fo coord_df analysis getters ys st')"
  by (induction xs arbitrary: st) (simp_all split: sum.splits)

lemma main_loop_returns:
  assumes "\<forall>c \<in> set selected. c < length coord_df"
  shows "\<exists>st'. main_loop se fo coord_df analysis getters selected st = Inr st'"
  using assms
proof (induction selected arbitrary: st)
  case Nil
  then show ?case by simp
next
  case (Cons c cs)
  then have "c < length coord_df" by simp
  from loop_body_cases[OF this, of se fo analysis getters st]
  obtain st1 where "loop_body se fo coord_df analysis getters c st = Inr st1" by blast
  then show ?case using Cons by simp
qed

lemma loop_body_Inr:
  assumes "loop_body se fo coord_df analysis getters c st = Inr st1"
  shows "(succeeded st1 = succeeded st @ [filename (coord_df ! c)] \<and> failed st1 = failed st)
       \<or> (succeeded st1 = succeeded st \<and> failed st1 = failed st @ [filename (coord_df ! c)])"
proof -
  from assms have c: "c < length coord_df"
    by (auto simp: loop_body_def split: if_splits)
  from loop_body_cases[OF c, of se fo analysis getters st] assms
  show ?thesis by (auto simp: mark_succeeded_def mark_failed_def)
qed

lemma main_loop_lists:
  assumes "main_loop se fo coord_df analysis getters selected st = Inr st'"
  shows "\<exists>s f. succeeded st' = succeeded st @ s \<and> failed st' = failed st @ f
           \<and> mset s + mset f = mset (map (\<lambda>c. filename (coord_df ! c)) selected)"
  using assms
proof (induction selected arbitrary: st)
  case Nil
  then show ?case by simp
next
  case (Cons c cs)
  from Cons.prems obtain st1 where
    b: "loop_body se fo coord_df analysis getters c st = Inr st1"
    and r: "main_loop se fo coord_df analysis getters cs st1 = Inr st'"
    by (auto split: sum.splits)
  from Cons.IH[OF r] obtain s f where
    sf: "succeeded st' = succeeded st1 @ s" "failed st' = failed st1 @ f"
        "mset s + mset f = mset (map (\<lambda>c. filename (coord_df ! c)) cs)"
    by blast
  from loop_body_Inr[OF b] show ?case
  proof
    assume "succeeded st1 = succeeded st @ [filename (coord_df ! c)] \<and> failed st1 = failed st"
    then have "succeeded st' = succeeded st @ (filename (coord_df ! c) # s)" "failed st' = failed st @ f"
      "mset (filename (coord_df ! c) # s) + mset f = mset (map (\<lambda>c. filename (coord_df ! c)) (c # cs))"
      using sf by simp_all
    then show ?thesis by blast
  next
    assume "succeeded st1 = succeeded st \<and> failed st1 = failed st @ [filename (coord_df ! c)]"
    then have "succeeded st' = succeeded st @ s" "failed st' = failed st @ (filename (coord_df ! c) # f)"
      "mset s + mset (filename (coord_df ! c) # f) = mset (map (\<lambda>c. filename (coord_df ! c)) (c # cs))"
      using sf by simp_all
    then show ?thesis by blast
  qed
qed


text \<open>
  C2: let the tiles before \<open>c\<close> be processed, and let fetching the data of tile \<open>c\<close> raise,
  or let the data be loaded and the analysis method raise.  Then the iteration ends
  normally with the file name of \<open>c\<close>, and nothing else, appended to the failed list, the
  loop goes on with the tiles after \<open>c\<close>, and the whole loop returns without an exception.
\<close>

theorem main_loop_catches:
  assumes valid: "\<forall>k \<in> set (pre @ c # post). k < length coord_df"
    and before: "main_loop se fo coord_df analysis getters pre st = Inr st1"
    and raised:
      "(\<exists>e. load_data fo se (filename (coord_df ! c))
               (lon_min (coord_df ! c), lat_min (coord_df ! c), lon_max (coord_df ! c), lat_max (coord_df ! c))
               getters (st_world st1) = (Inl e, w_after))
       \<or> (\<exists>imgs w1 method e.
             load_data fo se (filename (coord_df ! c))
               (lon_min (coord_df ! c), lat_min (coord_df ! c), lon_max (coord_df ! c), lat_max (coord_df ! c))
               getters (st_world st1) = (Inr (imgs, ''loaded''), w1)
           \<and> analysis = Some method
           \<and> method imgs fo se (filename (coord_df ! c))
               (lon_min (coord_df ! c), lat_min (coord_df ! c), lon_max (coord_df ! c), lat_max (coord_df ! c))
               w1 = (Inl e, w_after))"
  shows "loop_body se fo coord_df analysis getters c st1 =
           Inr (st1\<lparr>failed := failed st1 @ [filename (coord_df ! c)],
                    done_count := done_count st1 + 1, st_world := w_after\<rparr>)
       \<and> main_loop se fo coord_df analysis getters (pre @ c # post) st =
           main_loop se fo coord_df analysis getters post
             (st1\<lparr>failed := failed st1 @ [filename (coord_df ! c)],
                  done_count := done_count st1 + 1, st_world := w_after\<rparr>)
       \<and> (\<exists>st'. main_loop se fo coord_df analysis getters (pre @ c # post) st = Inr st')"
proof -
  from valid have c: "c < length coord_df" by simp
  have body: "loop_body se fo coord_df analysis getters c st1 =
           Inr (st1\<lparr>failed := failed st1 @ [filename (coord_df ! c)],
                    done_count := done_count st1 + 1, st_world := w_after\<rparr>)"
    using raised c by (auto simp: loop_body_def Let_def mark_failed_def)
  then have "main_loop se fo coord_df analysis getters (pre @ c # post) st =
           main_loop se fo coord_df analysis getters post
             (st1\<lparr>failed := failed st1 @ [filename (coord_df ! c)],
                  done_count := done_count st1 + 1, st_world := w_after\<rparr>)"
    using before by (simp add: main_loop_append)
  moreover have "\<exists>st'. main_loop se fo coord_df analysis getters (pre @ c # post) st = Inr st'"
    using valid by (rule main_loop_returns)
  ultimately show ?thesis using body by blast
qed

lemma demo_fetch:
  "load_data demo_folders demo_settings ''0_0'' (Fin 5, Fin 52, Fin 6, Fin 53) [(''nir'', good_client)] empty_world
     = (Inr ([(''nir'', demo_image)], ''loaded''),
        \<lparr>files = [''run/nir/0_0.png'' \<mapsto> ImageFile demo_image],
         wms_log = [demo_request (Fin 5, Fin 52, Fin 6, Fin 53)]\<rparr>)"
  by (simp add: load_data_def images_already_saved_def get_images_from_wms_service_def
      save_images_def demo_settings_def demo_api_def demo_folders_def empty_world_def
      good_client_def demo_request_def dict_get_def dict_set_def ebind_def path_join_def
      path_exists_def write_file_def Let_def)

lemma demo_picky:
  "picky_method [(''nir'', demo_image)] demo_folders demo_settings ''0_0'' (Fin 5, Fin 52, Fin 6, Fin 53)
     \<lparr>files = [''run/nir/0_0.png'' \<mapsto> ImageFile demo_image],
      wms_log = [demo_request (Fin 5, Fin 52, Fin 6, Fin 53)]\<rparr>
   = (Inl ValueError, \<lparr>files = [''run/nir/0_0.png'' \<mapsto> ImageFile demo_image],
      wms_log = [demo_request (Fin 5, Fin 52, Fin 6, Fin 53)]\<rparr>)"
  by (simp add: picky_method_def)

theorem main_loop_catches_witness:
  "\<exists>st'. main_loop demo_settings demo_folders demo_coord_df (Some picky_method) [(''nir'', good_client)]
            [0, 1] (start_state empty_world) = Inr st'
        \<and> failed st' = [''0_0''] \<and> succeeded st' = [''0_1'']"
proof -
  let ?w = "\<lparr>files = [''run/nir/0_0.png'' \<mapsto> ImageFile demo_image],
             wms_log = [demo_request (Fin 5, Fin 52, Fin 6, Fin 53)]\<rparr>"
  have valid: "\<forall>k \<in> set ([] @ 0 # [1]). k < length demo_coord_df"
    by (simp add: demo_coord_df_def)
  have before: "main_loop demo_settings demo_folders demo_coord_df (Some picky_method)
      [(''nir'', good_client)] [] (start_state empty_world) = Inr (start_state empty_world)"
    by simp
  have raised: "(\<exists>e. load_data demo_folders demo_settings (filename (demo_coord_df ! 0))
               (lon_min (demo_coord_df ! 0), lat_min (demo_coord_df ! 0), lon_max (demo_coord_df ! 0), lat_max (demo_coord_df ! 0))
               [(''nir'', good_client)] (st_world (start_state empty_world)) = (Inl e, ?w))
       \<or> (\<exists>imgs w1 method e.
             load_data demo_folders demo_settings (filename (demo_coord_df ! 0))
               (lon_min (demo_coord_df ! 0), lat_min (demo_coord_df ! 0), lon_max (demo_coord_df ! 0), lat_max (demo_coord_df ! 0))
               [(''nir'', good_client)] (st_world (start_state empty_world)) = (Inr (imgs, ''loaded''), w1)
           \<and> Some picky_method = Some method
           \<and> method imgs demo_folders demo_settings (filename (demo_coord_df ! 0))
               (lon_min (demo_coord_df ! 0), lat_min (demo_coord_df ! 0), lon_max (demo_coord_df ! 0), lat_max (demo_coord_df ! 0))
               w1 = (Inl e, ?w))"
    using demo_fetch demo_picky by (simp add: demo_coord_df_def start_state_def)
  from main_loop_catches[OF valid before raised]
  have step: "main_loop demo_settings demo_folders demo_coord_df (Some picky_method) [(''nir'', good_client)]
            ([] @ 0 # [1]) (start_state empty_world) =
          main_loop demo_settings demo_folders demo_coord_df (Some picky_method) [(''nir'', good_client)] [1]
            ((start_state empty_world)\<lparr>failed := failed (start_state empty_world) @ [filename (demo_coord_df ! 0)],
                  done_count := done_count (start_state empty_world) + 1, st_world := ?w\<rparr>)"
    by blast
  have "\<exists>st'. main_loop demo_settings demo_folders demo_coord_df (Some picky_method) [(''nir'', good_client)] [1]
            ((start_state empty_world)\<lparr>failed := failed (start_state empty_world) @ [filename (demo_coord_df ! 0)],
                  done_count := done_count (start_state empty_world) + 1, st_world := ?w\<rparr>) = Inr st'
        \<and> failed st' = [''0_0''] \<and> succeeded st' = [''0_1'']"
    by (simp add: loop_body_def demo_coord_df_def start_state_def picky_method_def mark_succeeded_def
        mark_failed_def demo_defs)
  then show ?thesis using step by simp
qed


lemma demo_flaky_run:
  "\<exists>st'. main_loop demo_settings demo_folders demo_coord_df (None :: unit analysis_method option)
       [(''nir'', flaky_client)] [0, 1] (start_state empty_world) = Inr st'
    \<and> succeeded st' = [''0_1''] \<and> failed st' = [''0_0'']
    \<and> files (st_world st') ''run/failed.csv'' = None"
  by (simp add: loop_body_def demo_coord_df_def start_state_def flaky_client_def mark_succeeded_def
        mark_failed_def demo_defs)

section \<open>Properties of the todo file and of the failure log\<close>

lemma first_index_Some:
  "first_index names x = Some i \<Longrightarrow> i < length names \<and> names ! i = x"
  by (induction names arbitrary: i) (auto split: if_splits)

lemma first_index_None: "first_index names x = None \<longleftrightarrow> x \<notin> set names"
  by (induction names) auto

lemma first_index_nth:
  assumes "distinct names" and "i < length names"
  shows "first_index names (names ! i) = Some i"
proof -
  have "names ! i \<in> set names" using assms(2) by simp
  then obtain j where j: "first_index names (names ! i) = Some j"
    using first_index_None[of names "names ! i"] by (cases "first_index names (names ! i)") auto
  from first_index_Some[OF j] have "j < length names" "names ! j = names ! i" by simp_all
  then have "j = i" using assms by (simp add: nth_eq_iff_index_eq)
  then show ?thesis using j by simp
qed

lemma todo_loop_eq:
  "todo_loop col names acc = acc @ List.map_filter (first_index names) col"
  by (induction col arbitrary: acc) (simp_all add: List.map_filter_simps split: option.splits)

lemma set_map_filter: "set (List.map_filter f xs) = {y. \<exists>x \<in> set xs. f x = Some y}"
  by (induction xs) (auto simp: List.map_filter_simps split: option.splits)

lemma todo_loop_set:
  assumes "distinct names"
  shows "set (todo_loop col names []) = {i. i < length names \<and> names ! i \<in> set col}"
proof -
  have "{y. \<exists>x \<in> set col. first_index names x = Some y} = {i. i < length names \<and> names ! i \<in> set col}"
  proof (intro set_eqI iffI; clarify)
    fix i x assume "x \<in> set col" "first_index names x = Some i"
    then show "i < length names \<and> names ! i \<in> set col"
      using first_index_Some[of names x i] by simp
  next
    fix i assume "i < length names" "names ! i \<in> set col"
    then show "\<exists>x \<in> set col. first_index names x = Some i"
      using first_index_nth[OF assms] by blast
  qed
  then show ?thesis by (simp add: todo_loop_eq set_map_filter)
qed

lemma todo_loop_valid:
  assumes "i \<in> set (todo_loop col names [])"
  shows "i < length names"
proof -
  from assms obtain x where "first_index names x = Some i"
    by (auto simp: todo_loop_eq set_map_filter)
  then show ?thesis using first_index_Some by blast
qed

lemma map_filter_empty: "List.map_filter f xs = [] \<longleftrightarrow> (\<forall>x \<in> set xs. f x = None)"
  by (induction xs) (auto simp: List.map_filter_simps split: option.splits)

lemma todo_loop_empty:
  "todo_loop col names [] = [] \<longleftrightarrow> set col \<inter> set names = {}"
  by (auto simp: todo_loop_eq map_filter_empty first_index_None)

lemma get_todo_filenames_valid:
  "get_todo_filenames coord_df p w = Some tt \<Longrightarrow> \<forall>i \<in> set tt. i < length coord_df"
  using todo_loop_valid[of _ _ "map filename coord_df"]
  by (auto simp: get_todo_filenames_def split: if_splits sum.splits option.splits)

lemma select_total_valid:
  "select_total fo coord_df todo w = Inr selected \<Longrightarrow> \<forall>c \<in> set selected. c < length coord_df"
  using get_todo_filenames_valid[of coord_df _ w]
  by (auto simp: select_total_def Let_def ebind_Inr_iff split: option.splits if_splits)

lemma select_total_returns:
  assumes "todo = None \<or> dict_get fo ''base'' = Inr base"
  shows "\<exists>selected. select_total fo coord_df todo w = Inr selected"
  using assms by (auto simp: select_total_def Let_def split: option.splits)

lemma select_total_Some:
  assumes "dict_get fo ''base'' = Inr base"
  shows "select_total fo coord_df (Some t) w =
           Inr (case get_todo_filenames coord_df (path_join base (t @ ''.csv'')) w of
                  None \<Rightarrow> [0 ..< length coord_df]
                | Some tt \<Rightarrow> if tt \<noteq> [] then tt else [0 ..< length coord_df])"
  using assms by (simp add: select_total_def Let_def split: option.splits)

lemma get_todo_filenames_missing:
  "files w p = None \<Longrightarrow> get_todo_filenames coord_df p w = None"
  by (simp add: get_todo_filenames_def path_exists_def)

lemma get_todo_filenames_csv:
  "files w p = Some (CsvFile tbl) \<Longrightarrow>
     get_todo_filenames coord_df p w =
       (case map_of tbl ''filename'' of
          None \<Rightarrow> None
        | Some col \<Rightarrow> if col = [] then None else Some (todo_loop col (map filename coord_df) []))"
  by (simp add: get_todo_filenames_def path_exists_def read_csv_def split: option.splits)

lemma get_todo_filenames_other:
  "files w p = Some c \<Longrightarrow> \<forall>tbl. c \<noteq> CsvFile tbl \<Longrightarrow> get_todo_filenames coord_df p w = None"
  by (cases c) (simp_all add: get_todo_filenames_def path_exists_def read_csv_def)

lemma select_total_todo:
  assumes base: "dict_get fo ''base'' = Inr base"
    and d: "distinct (map filename coord_df)"
    and sel: "select_total fo coord_df (Some t) w = Inr selected"
  shows "(case files w (path_join base (t @ ''.csv'')) of
            Some (CsvFile tbl) \<Rightarrow>
              (case map_of tbl ''filename'' of
                 Some col \<Rightarrow>
                   if set col \<inter> set (map filename coord_df) = {} then selected = [0 ..< length coord_df]
                   else set selected = {i. i < length coord_df \<and> filename (coord_df ! i) \<in> set col}
               | None \<Rightarrow> selected = [0 ..< length coord_df])
          | _ \<Rightarrow> selected = [0 ..< length coord_df])"
proof -
  define p where "p = path_join base (t @ ''.csv'')"
  define full where "full = [0 ..< length coord_df]"
  define names where "names = map filename coord_df"
  have s: "selected = (case get_todo_filenames coord_df p w of
                  None \<Rightarrow> full
                | Some tt \<Rightarrow> if tt \<noteq> [] then tt else full)"
    using sel unfolding select_total_Some[OF base] p_def full_def by simp
  have goal: "(case files w p of
            Some (CsvFile tbl) \<Rightarrow>
              (case map_of tbl ''filename'' of
                 Some col \<Rightarrow>
                   if set col \<inter> set names = {} then selected = full
                   else set selected = {i. i < length coord_df \<and> filename (coord_df ! i) \<in> set col}
               | None \<Rightarrow> selected = full)
          | _ \<Rightarrow> selected = full)"
  proof (cases "files w p")
    case None
    then show ?thesis using s by (simp add: get_todo_filenames_missing)
  next
    case (Some content)
    show ?thesis
    proof (cases "\<exists>tbl. content = CsvFile tbl")
      case False
      then have "get_todo_filenames coord_df p w = None"
        using Some get_todo_filenames_other[of w p content coord_df] by blast
      then have "selected = full" using s by simp
      then show ?thesis using Some False by (cases content) simp_all
    next
      case True
      then obtain tbl where c: "content = CsvFile tbl" by blast
      have g: "get_todo_filenames coord_df p w =
         (case map_of tbl ''filename'' of
            None \<Rightarrow> None
          | Some col \<Rightarrow> if col = [] then None else Some (todo_loop col names []))"
        using Some c get_todo_filenames_csv[of w p tbl coord_df] unfolding names_def by simp
      show ?thesis
      proof (cases "map_of tbl ''filename''")
        case None
        then show ?thesis using s g Some c by simp
      next
        case (Some col)
        note col = this
        have dn: "distinct names" using d by (simp only: names_def)
        have "{i. i < length names \<and> names ! i \<in> set col} =
                  {i. i < length coord_df \<and> filename (coord_df ! i) \<in> set col}"
          by (rule Collect_cong) (auto simp: names_def)
        then have tl: "set (todo_loop col names []) =
                  {i. i < length coord_df \<and> filename (coord_df ! i) \<in> set col}"
          using todo_loop_set[OF dn, of col] by simp
        show ?thesis
        proof (cases "set col \<inter> set names = {}")
          case True
          then have "todo_loop col names [] = []" by (simp only: todo_loop_empty)
          then have "selected = full" using s g col by simp
          then show ?thesis using \<open>files w p = Some content\<close> c col True by simp
        next
          case False
          then have ne: "todo_loop col names [] \<noteq> []" by (simp only: todo_loop_empty not_False_eq_True)
          have "col \<noteq> []" using False by auto
          then have "selected = todo_loop col names []" using s g col ne by simp
          then show ?thesis using \<open>files w p = Some content\<close> c col False tl by simp
        qed
      qed
    qed
  qed
  then show ?thesis by (simp only: p_def full_def names_def)
qed

lemma save_failed_base:
  assumes "dict_get fo ''base'' = Inr base"
  shows "save_failed fo fl w =
           Inr (if fl \<noteq> [] \<and> \<not> path_exists w (path_join base ''failed.csv'')
                then write_file (path_join base ''failed.csv'') (CsvFile [(''filename'', fl)]) w
                else w)"
  using assms by (simp add: save_failed_def Let_def)

lemma analysis_pipeline_run:
  assumes "setup_data_getters (data_api se) connect [] = Inr getters"
    and "select_total fo coord_df todo w = Inr selected"
    and "main_loop se fo coord_df analysis getters selected (start_state w) = Inr st"
    and "save_failed fo (failed st) (st_world st) = Inr w'"
  shows "analysis_pipeline se fo coord_df analysis todo connect w = Inr ((fo, succeeded st, failed st), w')"
  using assms by (simp add: analysis_pipeline_def)

lemma pipeline_runs:
  assumes conn: "setup_data_getters (data_api se) connect [] = Inr getters"
    and base: "dict_get fo ''base'' = Inr base"
  shows "\<exists>selected st.
           select_total fo coord_df todo w = Inr selected
         \<and> main_loop se fo coord_df analysis getters selected (start_state w) = Inr st
         \<and> analysis_pipeline se fo coord_df analysis todo connect w =
             Inr ((fo, succeeded st, failed st),
                  if failed st \<noteq> [] \<and> \<not> path_exists (st_world st) (path_join base ''failed.csv'')
                  then write_file (path_join base ''failed.csv'') (CsvFile [(''filename'', failed st)]) (st_world st)
                  else st_world st)"
proof -
  from select_total_returns[of todo fo base coord_df w] base
  obtain selected where sel: "select_total fo coord_df todo w = Inr selected" by blast
  from main_loop_returns[OF select_total_valid[OF sel], of se fo analysis getters "start_state w"]
  obtain st where st: "main_loop se fo coord_df analysis getters selected (start_state w) = Inr st"
    by blast
  from analysis_pipeline_run[OF conn sel st save_failed_base[OF base]] sel st
  show ?thesis by blast
qed

lemma demo_getters: "setup_data_getters (data_api demo_settings) demo_connect [] = Inr [(''nir'', good_client)]"
  by (simp add: demo_settings_def demo_api_def demo_connect_def dict_set_def)

lemma flaky_getters: "setup_data_getters (data_api demo_settings) flaky_connect [] = Inr [(''nir'', flaky_client)]"
  by (simp add: demo_settings_def demo_api_def flaky_connect_def dict_set_def)

lemma demo_base: "dict_get demo_folders ''base'' = Inr ''run''"
  by (simp add: dict_get_def demo_folders_def)

text \<open>
  C7: let the raster sources be set up and the base folder be known, and let the tiles of
  the plan have distinct names.  With a todo file the pipeline runs to its end, and the
  tiles it processes are those selected as follows: when the todo file is a readable
  table with a \<open>filename\<close> column of which at least one entry names a tile of the plan,
  exactly the rows of the plan whose name is in that column (entries that name no tile
  select nothing); when the file is missing, is not a readable table, has no \<open>filename\<close>
  column or no entry that names a tile, all rows of the plan.
\<close>

theorem analysis_pipeline_todo:
  assumes conn: "setup_data_getters (data_api se) connect [] = Inr getters"
    and base: "dict_get fo ''base'' = Inr base"
    and d: "distinct (map filename coord_df)"
  shows "\<exists>selected st w'.
           select_total fo coord_df (Some t) w = Inr selected
         \<and> main_loop se fo coord_df analysis getters selected (start_state w) = Inr st
         \<and> analysis_pipeline se fo coord_df analysis (Some t) connect w = Inr ((fo, succeeded st, failed st), w')
         \<and> mset (succeeded st) + mset (failed st) = mset (map (\<lambda>c. filename (coord_df ! c)) selected)
         \<and> (case files w (path_join base (t @ ''.csv'')) of
               Some (CsvFile tbl) \<Rightarrow>
                 (case map_of tbl ''filename'' of
                    Some col \<Rightarrow>
                      if set col \<inter> set (map filename coord_df) = {} then selected = [0 ..< length coord_df]
                      else set selected = {i. i < length coord_df \<and> filename (coord_df ! i) \<in> set col}
                  | None \<Rightarrow> selected = [0 ..< length coord_df])
             | _ \<Rightarrow> selected = [0 ..< length coord_df])"
proof -
  from pipeline_runs[OF conn base, of coord_df "Some t" w analysis]
  obtain selected st w' where
    sel: "select_total fo coord_df (Some t) w = Inr selected"
    and st: "main_loop se fo coord_df analysis getters selected (start_state w) = Inr st"
    and run: "analysis_pipeline se fo coord_df analysis (Some t) connect w = Inr ((fo, succeeded st, failed st), w')"
    by blast
  from main_loop_lists[OF st]
  have m: "mset (succeeded st) + mset (failed st) = mset (map (\<lambda>c. filename (coord_df ! c)) selected)"
    by (auto simp: start_state_def)
  from select_total_todo[OF base d sel] sel st run m show ?thesis by blast
qed

theorem analysis_pipeline_todo_witness:
  "\<exists>selected (st :: loop_state) w'.
     select_total demo_folders demo_coord_df (Some ''todo'') todo_world = Inr selected
   \<and> analysis_pipeline demo_settings demo_folders demo_coord_df (None :: unit analysis_method option)
       (Some ''todo'') demo_connect todo_world = Inr ((demo_folders, succeeded st, failed st), w')
   \<and> mset (succeeded st) + mset (failed st) = mset (map (\<lambda>c. filename (demo_coord_df ! c)) selected)
   \<and> set selected = {i. i < length demo_coord_df \<and> filename (demo_coord_df ! i) \<in> set [''0_1'', ''9_9'']}"
proof -
  have d: "distinct (map filename demo_coord_df)" by (simp add: demo_coord_df_def)
  have f: "files todo_world (path_join ''run'' (''todo'' @ ''.csv'')) = Some (CsvFile [(''filename'', [''0_1'', ''9_9''])])"
    by (simp add: todo_world_def path_join_def)
  have ne: "set [''0_1'', ''9_9''] \<inter> set (map filename demo_coord_df) \<noteq> {}"
    by (simp add: demo_coord_df_def)
  from analysis_pipeline_todo[OF demo_getters demo_base d, of "''todo''" todo_world "None :: unit analysis_method option"]
  obtain selected and st :: loop_state and w' where
    sel: "select_total demo_folders demo_coord_df (Some ''todo'') todo_world = Inr selected"
    and run: "analysis_pipeline demo_settings demo_folders demo_coord_df (None :: unit analysis_method option)
       (Some ''todo'') demo_connect todo_world = Inr ((demo_folders, succeeded st, failed st), w')"
    and m: "mset (succeeded st) + mset (failed st) = mset (map (\<lambda>c. filename (demo_coord_df ! c)) selected)"
    and c: "(case files todo_world (path_join ''run'' (''todo'' @ ''.csv'')) of
               Some (CsvFile tbl) \<Rightarrow>
                 (case map_of tbl ''filename'' of
                    Some col \<Rightarrow>
                      if set col \<inter> set (map filename demo_coord_df) = {} then selected = [0 ..< length demo_coord_df]
                      else set selected = {i. i < length demo_coord_df \<and> filename (demo_coord_df ! i) \<in> set col}
                  | None \<Rightarrow> selected = [0 ..< length demo_coord_df])
             | _ \<Rightarrow> selected = [0 ..< length demo_coord_df])"
    by blast
  have mo: "map_of [(''filename'', [''0_1'', ''9_9''])] ''filename'' = Some [''0_1'', ''9_9'']" by simp
  from c have "set selected = {i. i < length demo_coord_df \<and> filename (demo_coord_df ! i) \<in> set [''0_1'', ''9_9'']}"
    unfolding f file_content.case option.case mo if_not_P[OF ne] .
  with sel run m show ?thesis by blast
qed

text \<open>
  C8: let the raster sources be set up and the base folder be known.  The pipeline runs
  to its end, and after the loop \<open>failed.csv\<close> in the base folder is written, with the
  list of failed names, exactly when that list is not empty and no file is at that path;
  otherwise the world is left as the loop left it: a file already there keeps its
  content, and with no failure no file is created.
\<close>

theorem analysis_pipeline_failure_log:
  assumes conn: "setup_data_getters (data_api se) connect [] = Inr getters"
    and base: "dict_get fo ''base'' = Inr base"
  shows "\<exists>selected st w'.
           select_total fo coord_df todo w = Inr selected
         \<and> main_loop se fo coord_df analysis getters selected (start_state w) = Inr st
         \<and> analysis_pipeline se fo coord_df analysis todo connect w = Inr ((fo, succeeded st, failed st), w')
         \<and> (if failed st \<noteq> [] \<and> \<not> path_exists (st_world st) (path_join base ''failed.csv'')
             then w' = write_file (path_join base ''failed.csv'') (CsvFile [(''filename'', failed st)]) (st_world st)
             else w' = st_world st)
         \<and> (path_exists (st_world st) (path_join base ''failed.csv'') \<longrightarrow>
               files w' (path_join base ''failed.csv'') = files (st_world st) (path_join base ''failed.csv''))
         \<and> (failed st = [] \<longrightarrow> files w' = files (st_world st))"
proof -
  from pipeline_runs[OF conn base, of coord_df todo w analysis]
  obtain selected st where
    sel: "select_total fo coord_df todo w = Inr selected"
    and st: "main_loop se fo coord_df analysis getters selected (start_state w) = Inr st"
    and run: "analysis_pipeline se fo coord_df analysis todo connect w =
             Inr ((fo, succeeded st, failed st),
                  if failed st \<noteq> [] \<and> \<not> path_exists (st_world st) (path_join base ''failed.csv'')
                  then write_file (path_join base ''failed.csv'') (CsvFile [(''filename'', failed st)]) (st_world st)
                  else st_world st)"
    by blast
  show ?thesis
    apply (rule exI[of _ selected], rule exI[of _ st])
    apply (rule exI[of _ "if failed st \<noteq> [] \<and> \<not> path_exists (st_world st) (path_join base ''failed.csv'')
                  then write_file (path_join base ''failed.csv'') (CsvFile [(''filename'', failed st)]) (st_world st)
                  else st_world st"])
    using sel st run by simp
qed

lemma demo_select_all: "select_total demo_folders demo_coord_df None w = Inr [0, 1]"
  by (simp add: select_total_def demo_coord_df_def upt_rec)

theorem analysis_pipeline_failure_log_witness:
  "\<exists>w'. analysis_pipeline demo_settings demo_folders demo_coord_df (None :: unit analysis_method option)
          None flaky_connect empty_world = Inr ((demo_folders, [''0_1''], [''0_0'']), w')
      \<and> files w' ''run/failed.csv'' = Some (CsvFile [(''filename'', [''0_0''])])"
proof -
  from analysis_pipeline_failure_log[OF flaky_getters demo_base, of demo_coord_df None empty_world
      "None :: unit analysis_method option"]
  obtain selected st w' where
    sel: "select_total demo_folders demo_coord_df None empty_world = Inr selected"
    and ml: "main_loop demo_settings demo_folders demo_coord_df (None :: unit analysis_method option)
       [(''nir'', flaky_client)] selected (start_state empty_world) = Inr st"
    and run: "analysis_pipeline demo_settings demo_folders demo_coord_df (None :: unit analysis_method option)
          None flaky_connect empty_world = Inr ((demo_folders, succeeded st, failed st), w')"
    and wr: "if failed st \<noteq> [] \<and> \<not> path_exists (st_world st) (path_join ''run'' ''failed.csv'')
             then w' = write_file (path_join ''run'' ''failed.csv'') (CsvFile [(''filename'', failed st)]) (st_world st)
             else w' = st_world st"
    by blast
  from sel have s: "selected = [0, 1]" by (simp add: demo_select_all)
  from demo_flaky_run ml s have
    r: "succeeded st = [''0_1'']" "failed st = [''0_0'']" "files (st_world st) ''run/failed.csv'' = None"
    by auto
  from wr r have "w' = write_file ''run/failed.csv'' (CsvFile [(''filename'', [''0_0''])]) (st_world st)"
    by (simp add: path_exists_def path_join_def)
  then have "files w' ''run/failed.csv'' = Some (CsvFile [(''filename'', [''0_0''])])"
    by (simp add: write_file_def)
  with run r show ?thesis by simp
qed

section \<open>Failures of the tiler\<close>




















lemma math_cos_nonfinite: "\<not> is_finite x \<Longrightarrow> math_cos ar x = Inr v \<Longrightarrow> v = NaN"
  by (cases x) simp_all

lemma fl_NaN [simp]: "fl_add x NaN = NaN" "fl_mul x NaN = NaN" "np_div x NaN = NaN"
  by (cases x; simp)+

lemma dbl_add_NaN [simp]: "dbl_add ar x NaN = NaN" "dbl_add ar NaN x = NaN"
  by (cases x; simp)+

lemma dbl_mul_NaN [simp]: "dbl_mul ar x NaN = NaN" "dbl_mul ar NaN x = NaN"
  by (cases x; simp)+

lemma dbl_div_NaN [simp]: "dbl_div ar NaN x = NaN"
  by (cases x; simp)











section \<open>The two lists of the main loop\<close>












end
